theory Spec2Isabelle
  imports Main
begin

section \<open>A type-erased callable container: \<^verbatim>\<open>function<R(Args...)>\<close> of function.h\<close>

text \<open>
  The header implements a value-semantic wrapper around any callable object. The
  wrapper has two members: \<^verbatim>\<open>desc\<close>, a pointer to a static table of four operations
  (copy, move, destroy, invoke) generated for the concrete type held, and \<^verbatim>\<open>buf\<close>,
  a pointer-sized storage slot that holds either the object itself (a small type) or a
  pointer to a heap copy of it.

  Containers are C++ objects with an address (the code compares \<^verbatim>\<open>this == &rhs\<close>) and
  the slot may own a heap cell, so the embedding is a store: container objects by
  address, heap cells by address. Every member function takes the addresses it works
  on and the store, and returns either the new store or the exception raised together
  with the store it leaves behind.
\<close>

subsection \<open>Exceptions\<close>

text \<open>
  \<^verbatim>\<open>bad_function_call\<close> is the exception the header defines. \<^verbatim>\<open>bad_alloc\<close> is what
  \<^verbatim>\<open>new\<close> throws, \<open>thrown n\<close> is any exception of the held type's own code.
  \<open>undefined_behaviour\<close> marks the executions the C++ standard leaves undefined
  (a member function called where no container lives, a slot read as a type it does
  not hold).
\<close>

type_synonym addr = nat

datatype fault = bad_function_call | bad_alloc | thrown nat | undefined_behaviour

subsection \<open>Concrete callable types\<close>

text \<open>
  The platform fixes \<^verbatim>\<open>sizeof(void*)\<close> and \<^verbatim>\<open>alignof(void*)\<close>.
\<close>

record abi =
  ptr_size :: nat
  ptr_align :: nat

text \<open>
  What the templates of the header ask of a type \<^verbatim>\<open>T\<close>: its name (two types are the
  same type only if they have the same name), \<^verbatim>\<open>sizeof(T)\<close>, \<^verbatim>\<open>alignof(T)\<close>,
  \<^verbatim>\<open>std::is_nothrow_move_constructible_v<T>\<close>, its copy constructor (which may throw),
  its move constructor and its call operator. Values of all types live in one
  universe \<open>'v\<close>; \<open>'a\<close> is the argument pack and \<open>'r\<close> the result type of the signature.

  \<open>move_ctor\<close> is the value the move constructor builds; \<open>move_throws\<close> is the
  exception a move constructor that is not \<^verbatim>\<open>noexcept\<close> raises instead. A type with
  \<open>nothrow_move\<close> lets no exception out of its move constructor.
\<close>

record ('v, 'a, 'r) ctype =
  tname :: string
  sizeof :: nat
  alignof :: nat
  nothrow_move :: bool
  copy_ctor :: "'v \<Rightarrow> fault + 'v"
  move_ctor :: "'v \<Rightarrow> 'v"
  move_throws :: "'v \<Rightarrow> fault option"
  call :: "'v \<Rightarrow> 'a \<Rightarrow> fault + 'r"

definition move_construct :: "('v, 'a, 'r) ctype \<Rightarrow> 'v \<Rightarrow> fault + 'v" where
  "move_construct T v =
     (if nothrow_move T then Inr (move_ctor T v)
      else (case move_throws T v of Some e \<Rightarrow> Inl e | None \<Rightarrow> Inr (move_ctor T v)))"

subsection \<open>Storage\<close>

text \<open>
  \<^verbatim>\<open>storage_t = std::aligned_storage_t<sizeof(void*), alignof(void*)>\<close>: raw bytes
  (\<open>Raw\<close>, no object lives there), an object constructed in place, or a \<^verbatim>\<open>T*\<close>
  written there.
\<close>

datatype 'v storage_t = Raw | Obj 'v | Ptr addr

definition alignof_storage_t :: "abi \<Rightarrow> nat" where
  "alignof_storage_t P = ptr_align P"

definition is_small :: "abi \<Rightarrow> ('v, 'a, 'r) ctype \<Rightarrow> bool" where
  "is_small P T \<longleftrightarrow>
     sizeof T \<le> ptr_size P \<and> nothrow_move T \<and> alignof_storage_t P mod alignof T = 0"

text \<open>The classification as the specification words it.\<close>

definition is_small_spec :: "abi \<Rightarrow> ('v, 'a, 'r) ctype \<Rightarrow> bool" where
  "is_small_spec P T \<longleftrightarrow>
     sizeof T \<le> ptr_size P \<and> ptr_align P mod alignof T = 0 \<and> nothrow_move T"

subsection \<open>Descriptor pointers, containers and the store\<close>

text \<open>
  \<^verbatim>\<open>desc\<close> points to a function-local static object: \<^verbatim>\<open>empty\<close> in
  \<^verbatim>\<open>get_empty_func_descriptor\<close>, or \<^verbatim>\<open>result\<close> in the instantiation
  \<^verbatim>\<open>get_func_descriptor<T>\<close>, one object for each \<open>T\<close>. The address of a static
  object is represented by the object it is the address of.
\<close>

datatype ('v, 'a, 'r) desc_ptr = addr_of_empty | addr_of_result "('v, 'a, 'r) ctype"

record ('v, 'a, 'r) function_t =
  desc :: "('v, 'a, 'r) desc_ptr"
  buf :: "'v storage_t"

text \<open>
  The store: the container living at each address (\<open>None\<close>: no container there), the
  first address free for a local variable or temporary, the heap cells, the first heap
  address never handed out, and the address at which the heap is exhausted.
\<close>

record ('v, 'a, 'r) state =
  objs :: "addr \<Rightarrow> ('v, 'a, 'r) function_t option"
  stack_top :: addr
  heap :: "addr \<Rightarrow> 'v option"
  brk :: addr
  heap_limit :: addr

type_synonym ('v, 'a, 'r) res = "fault \<times> ('v, 'a, 'r) state + ('v, 'a, 'r) state"

datatype pointer = nullptr | in_buf addr | on_heap addr | wild

definition buf_at :: "('v, 'a, 'r) state \<Rightarrow> addr \<Rightarrow> 'v storage_t" where
  "buf_at s c = (case objs s c of Some f \<Rightarrow> buf f | None \<Rightarrow> Raw)"

definition set_buf :: "addr \<Rightarrow> 'v storage_t \<Rightarrow> ('v, 'a, 'r) state \<Rightarrow> ('v, 'a, 'r) state" where
  "set_buf c b s =
     (case objs s c of
        Some f \<Rightarrow> s\<lparr>objs := (objs s)(c \<mapsto> f\<lparr>buf := b\<rparr>)\<rparr>
      | None \<Rightarrow> s)"

definition set_desc ::
  "addr \<Rightarrow> ('v, 'a, 'r) desc_ptr \<Rightarrow> ('v, 'a, 'r) state \<Rightarrow> ('v, 'a, 'r) state" where
  "set_desc c d s =
     (case objs s c of
        Some f \<Rightarrow> s\<lparr>objs := (objs s)(c \<mapsto> f\<lparr>desc := d\<rparr>)\<rparr>
      | None \<Rightarrow> s)"

text \<open>\<^verbatim>\<open>*p\<close>: the object a pointer points to, if one lives there.\<close>

definition deref :: "('v, 'a, 'r) state \<Rightarrow> pointer \<Rightarrow> 'v option" where
  "deref s p =
     (case p of
        in_buf c \<Rightarrow> (case buf_at s c of Obj v \<Rightarrow> Some v | _ \<Rightarrow> None)
      | on_heap a \<Rightarrow> heap s a
      | _ \<Rightarrow> None)"

text \<open>
  \<^verbatim>\<open>*p = w\<close> for a caller that holds the pointer \<^verbatim>\<open>target<T>()\<close> returned: the
  object pointed to takes the value \<open>w\<close>.
\<close>

definition store_through ::
  "pointer \<Rightarrow> 'v \<Rightarrow> ('v, 'a, 'r) state \<Rightarrow> ('v, 'a, 'r) state option" where
  "store_through p w s =
     (case deref s p of
        None \<Rightarrow> None
      | Some _ \<Rightarrow>
          (case p of
             in_buf c \<Rightarrow> Some (set_buf c (Obj w) s)
           | on_heap a \<Rightarrow> Some (s\<lparr>heap := (heap s)(a \<mapsto> w)\<rparr>)
           | _ \<Rightarrow> None))"

text \<open>
  \<^verbatim>\<open>new T(...)\<close>: the allocation comes first and throws \<^verbatim>\<open>bad_alloc\<close> when the heap
  is exhausted; then the constructor runs, and if it throws the cell is given back.
  \<^verbatim>\<open>delete p\<close> ends the life of the object in the cell.
\<close>

definition new_obj ::
  "fault + 'v \<Rightarrow> ('v, 'a, 'r) state \<Rightarrow> fault \<times> ('v, 'a, 'r) state + addr \<times> ('v, 'a, 'r) state" where
  "new_obj init s =
     (if heap_limit s \<le> brk s then Inl (bad_alloc, s)
      else (case init of
              Inl e \<Rightarrow> Inl (e, s)
            | Inr v \<Rightarrow> Inr (brk s, s\<lparr>heap := (heap s)(brk s \<mapsto> v), brk := Suc (brk s)\<rparr>)))"

definition delete_obj :: "pointer \<Rightarrow> ('v, 'a, 'r) state \<Rightarrow> ('v, 'a, 'r) res" where
  "delete_obj p s =
     (case p of
        nullptr \<Rightarrow> Inr s
      | on_heap a \<Rightarrow>
          (case heap s a of
             Some _ \<Rightarrow> Inr (s\<lparr>heap := (heap s)(a := None)\<rparr>)
           | None \<Rightarrow> Inl (undefined_behaviour, s))
      | _ \<Rightarrow> Inl (undefined_behaviour, s))"

subsection \<open>\<^verbatim>\<open>get_pointer\<close>\<close>

text \<open>
  For a small type the address of the slot itself, otherwise the pointer stored in the
  slot. A slot that holds no pointer reads as an indeterminate pointer value. The
  const and the non-const overload are the same function.
\<close>

definition get_pointer ::
  "abi \<Rightarrow> ('v, 'a, 'r) ctype \<Rightarrow> addr \<Rightarrow> ('v, 'a, 'r) state \<Rightarrow> pointer" where
  "get_pointer P T c s =
     (if is_small P T then in_buf c
      else (case buf_at s c of Ptr a \<Rightarrow> on_heap a | _ \<Rightarrow> wild))"

subsection \<open>\<^verbatim>\<open>type_descriptor\<close>\<close>

text \<open>
  The four function pointers. A \<^verbatim>\<open>storage_t&\<close> parameter is the address of the
  container whose slot it is.
\<close>

record ('v, 'a, 'r) type_descriptor =
  copy :: "addr \<Rightarrow> addr \<Rightarrow> ('v, 'a, 'r) state \<Rightarrow> ('v, 'a, 'r) res"
  move :: "addr \<Rightarrow> addr \<Rightarrow> ('v, 'a, 'r) state \<Rightarrow> ('v, 'a, 'r) res"
  destroy :: "addr \<Rightarrow> ('v, 'a, 'r) state \<Rightarrow> ('v, 'a, 'r) res"
  invoke :: "addr \<Rightarrow> 'a \<Rightarrow> ('v, 'a, 'r) state \<Rightarrow> fault + 'r"

text \<open>The static object \<^verbatim>\<open>empty\<close>.\<close>

definition empty_descriptor :: "('v, 'a, 'r) type_descriptor" where
  "empty_descriptor =
     \<lparr>copy = (\<lambda>src dst s. Inr s),
      move = (\<lambda>src dst s. Inr s),
      destroy = (\<lambda>src s. Inr s),
      invoke = (\<lambda>src args s. Inl bad_function_call)\<rparr>"

text \<open>The static object \<^verbatim>\<open>result\<close> of \<^verbatim>\<open>get_func_descriptor<T>\<close>.\<close>

definition result_descriptor ::
  "abi \<Rightarrow> ('v, 'a, 'r) ctype \<Rightarrow> ('v, 'a, 'r) type_descriptor" where
  "result_descriptor P T =
     \<lparr>copy = (\<lambda>src dst s.
        (case deref s (get_pointer P T src s) of
           None \<Rightarrow> Inl (undefined_behaviour, s)
         | Some v \<Rightarrow>
             if is_small P T then
               (case copy_ctor T v of
                  Inl e \<Rightarrow> Inl (e, s)
                | Inr v' \<Rightarrow> Inr (set_buf dst (Obj v') s))
             else
               (case new_obj (copy_ctor T v) s of
                  Inl es \<Rightarrow> Inl es
                | Inr (a, s') \<Rightarrow> Inr (set_buf dst (Ptr a) s')))),
      move = (\<lambda>src dst s.
        if is_small P T then
          (case deref s (get_pointer P T src s) of
             None \<Rightarrow> Inl (undefined_behaviour, s)
           | Some v \<Rightarrow>
               (case move_construct T v of
                  Inl e \<Rightarrow> Inl (e, s)
                | Inr v' \<Rightarrow> Inr (set_buf src Raw (set_buf dst (Obj v') s))))
        else
          (case buf_at s src of
             Ptr a \<Rightarrow> Inr (set_buf dst (Ptr a) s)
           | _ \<Rightarrow> Inl (undefined_behaviour, s))),
      destroy = (\<lambda>src s.
        if is_small P T then
          (case deref s (get_pointer P T src s) of
             None \<Rightarrow> Inl (undefined_behaviour, s)
           | Some v \<Rightarrow> Inr (set_buf src Raw s))
        else delete_obj (get_pointer P T src s) s),
      invoke = (\<lambda>src args s.
        (case deref s (get_pointer P T src s) of
           None \<Rightarrow> Inl undefined_behaviour
         | Some v \<Rightarrow> call T v args))\<rparr>"

text \<open>
  The two static member functions return the addresses of these objects;
  \<open>pointee\<close> is \<^verbatim>\<open>*desc\<close>.
\<close>

definition get_empty_func_descriptor :: "('v, 'a, 'r) desc_ptr" where
  "get_empty_func_descriptor = addr_of_empty"

definition get_func_descriptor :: "('v, 'a, 'r) ctype \<Rightarrow> ('v, 'a, 'r) desc_ptr" where
  "get_func_descriptor T = addr_of_result T"

definition pointee ::
  "abi \<Rightarrow> ('v, 'a, 'r) desc_ptr \<Rightarrow> ('v, 'a, 'r) type_descriptor" where
  "pointee P d =
     (case d of
        addr_of_empty \<Rightarrow> empty_descriptor
      | addr_of_result T \<Rightarrow> result_descriptor P T)"

subsection \<open>The member functions of \<^verbatim>\<open>function<R(Args...)>\<close>\<close>

text \<open>\<^verbatim>\<open>function() noexcept\<close>\<close>

definition function_default :: "addr \<Rightarrow> ('v, 'a, 'r) state \<Rightarrow> ('v, 'a, 'r) res" where
  "function_default this s =
     Inr (s\<lparr>objs := (objs s)(this \<mapsto> \<lparr>desc = get_empty_func_descriptor, buf = Raw\<rparr>)\<rparr>)"

text \<open>
  \<^verbatim>\<open>function(function const& other)\<close>. When the copy throws, the object under
  construction never comes to life.
\<close>

definition function_copy ::
  "abi \<Rightarrow> addr \<Rightarrow> addr \<Rightarrow> ('v, 'a, 'r) state \<Rightarrow> ('v, 'a, 'r) res" where
  "function_copy P this other s =
     (case objs s other of
        None \<Rightarrow> Inl (undefined_behaviour, s)
      | Some g \<Rightarrow>
          (let f = \<lparr>desc = desc g, buf = Raw\<rparr>;
               s1 = s\<lparr>objs := (objs s)(this \<mapsto> f)\<rparr>
           in case copy (pointee P (desc f)) other this s1 of
                Inl (e, s2) \<Rightarrow> Inl (e, s2\<lparr>objs := (objs s2)(this := None)\<rparr>)
              | Inr s2 \<Rightarrow> Inr s2))"

text \<open>\<^verbatim>\<open>function(function&& other) noexcept\<close>\<close>

definition function_move ::
  "abi \<Rightarrow> addr \<Rightarrow> addr \<Rightarrow> ('v, 'a, 'r) state \<Rightarrow> ('v, 'a, 'r) res" where
  "function_move P this other s =
     (case objs s other of
        None \<Rightarrow> Inl (undefined_behaviour, s)
      | Some g \<Rightarrow>
          (let f = \<lparr>desc = desc g, buf = Raw\<rparr>;
               s1 = s\<lparr>objs := (objs s)(this \<mapsto> f)\<rparr>
           in case move (pointee P (desc f)) other this s1 of
                Inl es \<Rightarrow> Inl es
              | Inr s2 \<Rightarrow> Inr (set_desc other get_empty_func_descriptor s2)))"

text \<open>\<^verbatim>\<open>template <typename T> function(T val)\<close>\<close>

definition function_from ::
  "abi \<Rightarrow> ('v, 'a, 'r) ctype \<Rightarrow> addr \<Rightarrow> 'v \<Rightarrow> ('v, 'a, 'r) state \<Rightarrow> ('v, 'a, 'r) res" where
  "function_from P T this val s =
     (let f = \<lparr>desc = get_func_descriptor T, buf = Raw\<rparr>;
          s1 = s\<lparr>objs := (objs s)(this \<mapsto> f)\<rparr>
      in if is_small P T then
           (case move_construct T val of
              Inl e \<Rightarrow> Inl (e, s1\<lparr>objs := (objs s1)(this := None)\<rparr>)
            | Inr v' \<Rightarrow> Inr (set_buf this (Obj v') s1))
         else
           (case new_obj (move_construct T val) s1 of
              Inl (e, s2) \<Rightarrow> Inl (e, s2\<lparr>objs := (objs s2)(this := None)\<rparr>)
            | Inr (a, s2) \<Rightarrow> Inr (set_buf this (Ptr a) s2)))"

text \<open>\<^verbatim>\<open>function& operator=(function&& rhs) noexcept\<close>\<close>

definition move_assign ::
  "abi \<Rightarrow> addr \<Rightarrow> addr \<Rightarrow> ('v, 'a, 'r) state \<Rightarrow> ('v, 'a, 'r) res" where
  "move_assign P this rhs s =
     (if this = rhs then Inr s
      else
        (case objs s this of
           None \<Rightarrow> Inl (undefined_behaviour, s)
         | Some f \<Rightarrow>
             (case destroy (pointee P (desc f)) this s of
                Inl es \<Rightarrow> Inl es
              | Inr s1 \<Rightarrow>
                  (case objs s1 rhs of
                     None \<Rightarrow> Inl (undefined_behaviour, s1)
                   | Some g \<Rightarrow>
                       (let s2 = set_desc this (desc g) s1
                        in case move (pointee P (desc g)) rhs this s2 of
                             Inl es \<Rightarrow> Inl es
                           | Inr s3 \<Rightarrow> Inr (set_desc rhs get_empty_func_descriptor s3))))))"

text \<open>\<^verbatim>\<open>~function()\<close>\<close>

definition function_dtor :: "abi \<Rightarrow> addr \<Rightarrow> ('v, 'a, 'r) state \<Rightarrow> ('v, 'a, 'r) res" where
  "function_dtor P this s =
     (case objs s this of
        None \<Rightarrow> Inl (undefined_behaviour, s)
      | Some f \<Rightarrow>
          (case destroy (pointee P (desc f)) this s of
             Inl es \<Rightarrow> Inl es
           | Inr s1 \<Rightarrow> Inr (s1\<lparr>objs := (objs s1)(this := None)\<rparr>)))"

text \<open>
  \<^verbatim>\<open>void swap(function& other) noexcept\<close>. The local \<^verbatim>\<open>tmp\<close> lives at the top of
  the stack and is destroyed when the function returns.
\<close>

definition swap :: "abi \<Rightarrow> addr \<Rightarrow> addr \<Rightarrow> ('v, 'a, 'r) state \<Rightarrow> ('v, 'a, 'r) res" where
  "swap P this other s =
     (let tmp = stack_top s;
          s0 = s\<lparr>stack_top := Suc tmp\<rparr>
      in case function_move P tmp this s0 of
           Inl es \<Rightarrow> Inl es
         | Inr s1 \<Rightarrow>
             (case move_assign P this other s1 of
                Inl es \<Rightarrow> Inl es
              | Inr s2 \<Rightarrow>
                  (case move_assign P other tmp s2 of
                     Inl es \<Rightarrow> Inl es
                   | Inr s3 \<Rightarrow>
                       (case function_dtor P tmp s3 of
                          Inl es \<Rightarrow> Inl es
                        | Inr s4 \<Rightarrow> Inr (s4\<lparr>stack_top := tmp\<rparr>)))))"

text \<open>
  \<^verbatim>\<open>function& operator=(function const& rhs)\<close>. The temporary \<^verbatim>\<open>function(rhs)\<close>
  lives at the top of the stack until the end of the statement.
\<close>

definition copy_assign ::
  "abi \<Rightarrow> addr \<Rightarrow> addr \<Rightarrow> ('v, 'a, 'r) state \<Rightarrow> ('v, 'a, 'r) res" where
  "copy_assign P this rhs s =
     (if this = rhs then Inr s
      else
        (let t = stack_top s;
             s0 = s\<lparr>stack_top := Suc t\<rparr>
         in case function_copy P t rhs s0 of
              Inl (e, s1) \<Rightarrow> Inl (e, s1\<lparr>stack_top := t\<rparr>)
            | Inr s1 \<Rightarrow>
                (case swap P t this s1 of
                   Inl es \<Rightarrow> Inl es
                 | Inr s2 \<Rightarrow>
                     (case function_dtor P t s2 of
                        Inl es \<Rightarrow> Inl es
                      | Inr s3 \<Rightarrow> Inr (s3\<lparr>stack_top := t\<rparr>)))))"

text \<open>\<^verbatim>\<open>explicit operator bool() const noexcept\<close>\<close>

definition operator_bool :: "('v, 'a, 'r) state \<Rightarrow> addr \<Rightarrow> fault + bool" where
  "operator_bool s this =
     (case objs s this of
        None \<Rightarrow> Inl undefined_behaviour
      | Some f \<Rightarrow> Inr (desc f \<noteq> get_empty_func_descriptor))"

text \<open>\<^verbatim>\<open>R operator()(Args... args) const\<close>, with its test \<^verbatim>\<open>!*this == true\<close>.\<close>

definition operator_call ::
  "abi \<Rightarrow> addr \<Rightarrow> 'a \<Rightarrow> ('v, 'a, 'r) state \<Rightarrow> fault + 'r" where
  "operator_call P this args s =
     (case objs s this of
        None \<Rightarrow> Inl undefined_behaviour
      | Some f \<Rightarrow>
          (case operator_bool s this of
             Inl e \<Rightarrow> Inl e
           | Inr b \<Rightarrow>
               if (\<not> b) = True then Inl bad_function_call
               else invoke (pointee P (desc f)) this args s))"

text \<open>\<^verbatim>\<open>template <typename T> T* target() noexcept\<close> and its const overload.\<close>

definition target ::
  "abi \<Rightarrow> ('v, 'a, 'r) ctype \<Rightarrow> addr \<Rightarrow> ('v, 'a, 'r) state \<Rightarrow> fault + pointer" where
  "target P T this s =
     (case objs s this of
        None \<Rightarrow> Inl undefined_behaviour
      | Some f \<Rightarrow>
          if desc f = get_func_descriptor T then Inr (get_pointer P T this s)
          else Inr nullptr)"

subsection \<open>What a container holds\<close>

text \<open>
  The two consistent states of a container: bound to the empty record, or bound to the
  record of \<open>T\<close> with a value \<open>v\<close> of \<open>T\<close> laid out in the slot as the classification of
  \<open>T\<close> says (in place, or in a live heap cell the slot points to).
\<close>

definition is_empty :: "('v, 'a, 'r) state \<Rightarrow> addr \<Rightarrow> bool" where
  "is_empty s c =
     (case objs s c of
        None \<Rightarrow> False
      | Some f \<Rightarrow> desc f = get_empty_func_descriptor)"

definition holds ::
  "abi \<Rightarrow> ('v, 'a, 'r) state \<Rightarrow> addr \<Rightarrow> ('v, 'a, 'r) ctype \<Rightarrow> 'v \<Rightarrow> bool" where
  "holds P s c T v =
     (case objs s c of
        None \<Rightarrow> False
      | Some f \<Rightarrow>
          desc f = get_func_descriptor T \<and>
          (if is_small P T then buf f = Obj v
           else (case buf f of
                   Ptr a \<Rightarrow> a < brk s \<and> heap s a = Some v
                 | _ \<Rightarrow> False)))"

text \<open>
  The heap cell a container owns, if any, and the statement that two containers do not
  own the same cell (no payload is ever shared between two containers).
\<close>

definition payload :: "abi \<Rightarrow> ('v, 'a, 'r) state \<Rightarrow> addr \<Rightarrow> addr option" where
  "payload P s c =
     (case objs s c of
        None \<Rightarrow> None
      | Some f \<Rightarrow>
          (case desc f of
             addr_of_empty \<Rightarrow> None
           | addr_of_result T \<Rightarrow>
               if is_small P T then None
               else (case buf f of Ptr a \<Rightarrow> Some a | _ \<Rightarrow> None)))"

definition separate :: "abi \<Rightarrow> ('v, 'a, 'r) state \<Rightarrow> addr \<Rightarrow> addr \<Rightarrow> bool" where
  "separate P s c1 c2 =
     (case payload P s c1 of
        None \<Rightarrow> True
      | Some a \<Rightarrow> payload P s c2 \<noteq> Some a)"

subsection \<open>Example types and an example store\<close>

text \<open>
  A 64-bit platform; a lambda that captures one \<^verbatim>\<open>int\<close> and adds it to its argument
  (small); a second type with the same size, alignment, signature and behaviour, under
  another name; a callable with a 64-byte payload (not small); and a small type whose
  copy constructor throws. The value universe is \<open>int\<close>.
\<close>

definition lp64 :: abi where
  "lp64 = \<lparr>ptr_size = 8, ptr_align = 8\<rparr>"

definition add_capture :: "(int, int, int) ctype" where
  "add_capture =
     \<lparr>tname = ''add_capture'', sizeof = 4, alignof = 4, nothrow_move = True,
      copy_ctor = (\<lambda>v. Inr v), move_ctor = (\<lambda>v. v), move_throws = (\<lambda>v. None),
      call = (\<lambda>v x. Inr (v + x))\<rparr>"

definition add_twin :: "(int, int, int) ctype" where
  "add_twin =
     \<lparr>tname = ''add_twin'', sizeof = 4, alignof = 4, nothrow_move = True,
      copy_ctor = (\<lambda>v. Inr v), move_ctor = (\<lambda>v. v), move_throws = (\<lambda>v. None),
      call = (\<lambda>v x. Inr (v + x))\<rparr>"

definition wide_payload :: "(int, int, int) ctype" where
  "wide_payload =
     \<lparr>tname = ''wide_payload'', sizeof = 64, alignof = 8, nothrow_move = True,
      copy_ctor = (\<lambda>v. Inr v), move_ctor = (\<lambda>v. v), move_throws = (\<lambda>v. None),
      call = (\<lambda>v x. if x = 0 then Inl (thrown 3) else Inr (v * x))\<rparr>"

definition copy_throws :: "(int, int, int) ctype" where
  "copy_throws =
     \<lparr>tname = ''copy_throws'', sizeof = 8, alignof = 8, nothrow_move = True,
      copy_ctor = (\<lambda>v. Inl (thrown 1)), move_ctor = (\<lambda>v. v), move_throws = (\<lambda>v. None),
      call = (\<lambda>v x. Inr v)\<rparr>"

text \<open>
  A store with four containers: at 0 an \<open>add_capture\<close> capturing 5, at 1 a
  \<open>wide_payload\<close> with value 7 in heap cell 0, at 2 an empty container, at 3 a
  \<open>copy_throws\<close> with value 9.
\<close>

definition store4 :: "(int, int, int) state" where
  "store4 =
     \<lparr>objs = (\<lambda>c. None)
        (0 \<mapsto> \<lparr>desc = get_func_descriptor add_capture, buf = Obj 5\<rparr>,
         1 \<mapsto> \<lparr>desc = get_func_descriptor wide_payload, buf = Ptr 0\<rparr>,
         2 \<mapsto> \<lparr>desc = get_empty_func_descriptor, buf = Raw\<rparr>,
         3 \<mapsto> \<lparr>desc = get_func_descriptor copy_throws, buf = Obj 9\<rparr>),
      stack_top = 4,
      heap = (\<lambda>a. None)(0 \<mapsto> 7),
      brk = 1,
      heap_limit = 8\<rparr>"

section \<open>Properties\<close>

subsection \<open>Unfolding the embedding\<close>

lemmas exec_defs = function_from_def function_copy_def function_move_def move_assign_def
  function_dtor_def swap_def copy_assign_def function_default_def
  operator_bool_def operator_call_def target_def
  get_pointer_def result_descriptor_def empty_descriptor_def pointee_def
  get_func_descriptor_def get_empty_func_descriptor_def set_buf_def set_desc_def buf_at_def
  deref_def new_obj_def delete_obj_def store_through_def Let_def

lemmas pred_defs = holds_def is_empty_def payload_def separate_def

lemmas example_defs = lp64_def add_capture_def add_twin_def wide_payload_def copy_throws_def
  store4_def is_small_def alignof_storage_t_def move_construct_def

lemma small_move_construct: "is_small P T \<Longrightarrow> move_construct T v = Inr (move_ctor T v)"
  by (simp add: is_small_def move_construct_def)

lemma move_construct_Inr: "move_construct T v = Inr b \<Longrightarrow> b = move_ctor T v"
  by (auto simp: move_construct_def split: if_splits option.splits)

text \<open>The layouts behind \<open>holds\<close> and \<open>is_empty\<close>, as case rules.\<close>

lemma holds_cases:
  assumes "holds P s c T v"
  obtains (small) "is_small P T" "objs s c = Some \<lparr>desc = addr_of_result T, buf = Obj v\<rparr>"
  | (big) a where "\<not> is_small P T" "objs s c = Some \<lparr>desc = addr_of_result T, buf = Ptr a\<rparr>"
      "a < brk s" "heap s a = Some v"
proof (cases "objs s c")
  case None
  with assms show ?thesis by (simp add: holds_def)
next
  case (Some f)
  obtain d b where f: "f = \<lparr>desc = d, buf = b\<rparr>" by (cases f) auto
  show ?thesis
  proof (cases "is_small P T")
    case True
    with assms Some f small show ?thesis
      by (simp add: holds_def get_func_descriptor_def)
  next
    case False
    with assms Some f big show ?thesis
      by (auto simp: holds_def get_func_descriptor_def split: storage_t.splits)
  qed
qed

lemma is_empty_cases:
  assumes "is_empty s c"
  obtains b where "objs s c = Some \<lparr>desc = addr_of_empty, buf = b\<rparr>"
proof (cases "objs s c")
  case None
  with assms show ?thesis by (simp add: is_empty_def)
next
  case (Some f)
  obtain d b where f: "f = \<lparr>desc = d, buf = b\<rparr>" by (cases f) auto
  with assms Some that show ?thesis
    by (simp add: is_empty_def get_empty_func_descriptor_def)
qed

text \<open>The example store, read through the predicates.\<close>

lemma store4_holds_small: "holds lp64 store4 0 add_capture 5"
  by (simp add: pred_defs example_defs get_func_descriptor_def)

lemma store4_holds_big: "holds lp64 store4 1 wide_payload 7"
  by (simp add: pred_defs example_defs get_func_descriptor_def)

lemma store4_empty: "is_empty store4 2"
  by (simp add: pred_defs example_defs get_empty_func_descriptor_def)

lemma store4_holds_throwing: "holds lp64 store4 3 copy_throws 9"
  by (simp add: pred_defs example_defs get_func_descriptor_def)

lemma twin_is_another_type: "add_capture \<noteq> add_twin"
  by (simp add: add_capture_def add_twin_def)

subsection \<open>Storage classification\<close>

text \<open>
  Claim C7. A type is small exactly when its size is at most the size of a pointer, the
  alignment of the pointer-sized storage is a multiple of its alignment, and its move
  constructor does not throw. Every operation decides the layout of the slot by this one
  predicate: \<^verbatim>\<open>get_pointer\<close>, through which the operations reach the value,
  answers with the address of the slot itself exactly for the small types.
\<close>

theorem is_small_classification:
  "is_small P T = is_small_spec P T \<and>
   (get_pointer P T c s = in_buf c) = is_small P T"
  by (auto simp: is_small_def is_small_spec_def alignof_storage_t_def get_pointer_def
           split: storage_t.splits)

theorem is_small_classification_witness:
  "is_small lp64 add_capture \<and> is_small_spec lp64 add_capture \<and>
   get_pointer lp64 add_capture 0 store4 = in_buf 0 \<and>
   \<not> is_small lp64 wide_payload \<and> \<not> is_small_spec lp64 wide_payload \<and>
   get_pointer lp64 wide_payload 1 store4 \<noteq> in_buf 1"
proof -
  have k: "is_small lp64 add_capture" "\<not> is_small lp64 wide_payload"
    by (simp_all add: example_defs)
  show ?thesis
    using is_small_classification
        [where P = lp64 and T = add_capture and c = 0 and s = store4]
      is_small_classification
        [where P = lp64 and T = wide_payload and c = 1 and s = store4]
      k
    by simp
qed

subsection \<open>Invocation\<close>

text \<open>
  Claim C1. Calling an empty container raises \<^verbatim>\<open>bad_function_call\<close>, whatever the
  storage slot contains (the slot is never read: the outcome is the same for every
  content \<open>b\<close> written to it, and the empty record's own invoke raises for every slot).
  Calling a container that holds \<open>v\<close> of type \<open>T\<close> gives exactly the outcome of
  calling \<open>v\<close>: its result, or the exception it raises.
\<close>

theorem operator_call_empty_or_forward:
  "(is_empty s c \<longrightarrow>
      operator_call P c args s = Inl bad_function_call \<and>
      (\<forall>b. operator_call P c args (set_buf c b s) = Inl bad_function_call) \<and>
      invoke (pointee P get_empty_func_descriptor) c args s = Inl bad_function_call) \<and>
   (holds P s c T v \<longrightarrow> operator_call P c args s = call T v args)"
proof -
  have e: "operator_call P c args s = Inl bad_function_call \<and>
      (\<forall>b. operator_call P c args (set_buf c b s) = Inl bad_function_call) \<and>
      invoke (pointee P get_empty_func_descriptor) c args s = Inl bad_function_call"
    if "is_empty s c"
    using that by (elim is_empty_cases) (simp add: exec_defs)
  have h: "operator_call P c args s = call T v args" if "holds P s c T v"
    using that by (cases rule: holds_cases) (simp_all add: exec_defs)
  show ?thesis
    using e h by blast
qed

theorem operator_call_empty_or_forward_witness:
  "is_empty store4 2 \<and> operator_call lp64 2 4 store4 = Inl bad_function_call \<and>
   holds lp64 store4 0 add_capture 5 \<and> operator_call lp64 0 4 store4 = Inr 9 \<and>
   holds lp64 store4 1 wide_payload 7 \<and> operator_call lp64 1 0 store4 = Inl (thrown 3)"
  using operator_call_empty_or_forward
      [where s = store4 and c = 2 and P = lp64 and args = 4 and T = add_capture and v = 5]
    operator_call_empty_or_forward
      [where s = store4 and c = 0 and P = lp64 and args = 4 and T = add_capture and v = 5]
    operator_call_empty_or_forward
      [where s = store4 and c = 1 and P = lp64 and args = 0 and T = wide_payload and v = 7]
    store4_empty store4_holds_small store4_holds_big
  by (simp add: add_capture_def wide_payload_def)

subsection \<open>Construction\<close>

text \<open>
  Claim C8. Default construction always succeeds; the container it makes is empty: its
  boolean query is false and \<^verbatim>\<open>target<T>()\<close> is null for every \<open>T\<close>. Nothing is
  stored: the slot stays raw and the heap is untouched.
\<close>

theorem default_constructed_empty:
  "\<exists>s'. function_default c s = Inr s' \<and> operator_bool s' c = Inr False \<and>
     (\<forall>T. target P T c s' = Inr nullptr) \<and>
     buf_at s' c = Raw \<and> heap s' = heap s \<and> brk s' = brk s"
  by (simp add: exec_defs)

theorem default_constructed_empty_witness:
  "\<exists>s'. function_default 6 store4 = Inr s' \<and> operator_bool s' 6 = Inr False \<and>
     target lp64 add_capture 6 s' = Inr nullptr \<and> heap s' = heap store4"
  using default_constructed_empty [where c = 6 and s = store4 and P = lp64] by auto

text \<open>
  Claim C10. A container constructed from a value is non-empty: when the constructor
  returns, the boolean query is true, because the record of any type \<open>T\<close> is another
  object than the empty record. The constructor returns unless \<open>T\<close> is not small and
  either the allocation or the move constructor of \<open>T\<close> throws.
\<close>

theorem constructed_from_value_nonempty:
  "(case function_from P T c v s of
      Inr s' \<Rightarrow> operator_bool s' c = Inr True
    | Inl (e, s') \<Rightarrow>
        \<not> is_small P T \<and>
        (e = bad_alloc \<and> heap_limit s \<le> brk s \<or> move_construct T v = Inl e)) \<and>
   get_func_descriptor T \<noteq> (get_empty_func_descriptor :: ('v, 'a, 'r) desc_ptr)"
  by (cases "is_small P T"; cases "move_construct T v"; cases "heap_limit s \<le> brk s")
    (simp_all add: exec_defs small_move_construct)

theorem constructed_from_value_nonempty_witness:
  "(\<exists>s'. function_from lp64 add_capture 6 5 store4 = Inr s' \<and> operator_bool s' 6 = Inr True) \<and>
   (\<exists>s'. function_from lp64 wide_payload 6 5 store4 = Inr s' \<and> operator_bool s' 6 = Inr True)"
proof -
  have "\<exists>s'. function_from lp64 add_capture 6 5 store4 = Inr s'"
    by (simp add: exec_defs example_defs)
  moreover have "\<exists>s'. function_from lp64 wide_payload 6 5 store4 = Inr s'"
    by (simp add: exec_defs example_defs)
  ultimately show ?thesis
    using constructed_from_value_nonempty
        [where P = lp64 and T = add_capture and c = 6 and v = 5 and s = store4]
      constructed_from_value_nonempty
        [where P = lp64 and T = wide_payload and c = 6 and v = 5 and s = store4]
    by auto
qed

text \<open>
  Claim C4. Round trip: after constructing a container from \<open>v\<close>, \<^verbatim>\<open>target<T>()\<close>
  points to a value equal to \<open>v\<close>, in the slot itself for a small \<open>T\<close> and in a fresh
  heap cell otherwise. The value in the container is the one the move constructor of
  \<open>T\<close> built from \<open>v\<close>; it is \<open>v\<close> for a move constructor that keeps the value.
\<close>

theorem target_round_trip:
  assumes "function_from P T c v s = Inr s'" and "move_ctor T v = v"
  shows "\<exists>p. target P T c s' = Inr p \<and> deref s' p = Some v \<and>
     p = (if is_small P T then in_buf c else on_heap (brk s))"
  using assms
  by (cases "is_small P T"; cases "move_construct T v"; cases "heap_limit s \<le> brk s")
    (auto simp: exec_defs small_move_construct dest: move_construct_Inr)

theorem target_round_trip_witness:
  "(\<exists>s' p. function_from lp64 add_capture 6 5 store4 = Inr s' \<and>
      target lp64 add_capture 6 s' = Inr p \<and> deref s' p = Some 5 \<and> p = in_buf 6) \<and>
   (\<exists>s' p. function_from lp64 wide_payload 6 5 store4 = Inr s' \<and>
      target lp64 wide_payload 6 s' = Inr p \<and> deref s' p = Some 5 \<and> p = on_heap 1)"
proof -
  obtain s1 where s1: "function_from lp64 add_capture 6 5 store4 = Inr s1"
    by (simp add: exec_defs example_defs)
  obtain s2 where s2: "function_from lp64 wide_payload 6 5 store4 = Inr s2"
    by (simp add: exec_defs example_defs)
  have m1: "move_ctor add_capture 5 = 5" by (simp add: add_capture_def)
  have m2: "move_ctor wide_payload 5 = 5" by (simp add: wide_payload_def)
  have k1: "is_small lp64 add_capture" by (simp add: example_defs)
  have k2: "\<not> is_small lp64 wide_payload" by (simp add: example_defs)
  have b: "brk store4 = 1" by (simp add: store4_def)
  show ?thesis
    using target_round_trip [OF s1 m1] target_round_trip [OF s2 m2] s1 s2 k1 k2 b
    by auto
qed

text \<open>
  Claim C2. Move construction from a container that holds \<open>v\<close> always succeeds. The
  source is left empty (bound to the empty record, boolean query false, owning no heap
  cell) and the new container holds \<open>v\<close>. For a small \<open>T\<close> the value arrives through
  the move constructor of \<open>T\<close>, taken to keep the value; for any other \<open>T\<close> the
  pointer changes hands and the heap is not touched.
\<close>

theorem move_construction_transfers:
  assumes "holds P s c1 T v" and "c2 \<noteq> c1" and "is_small P T \<longrightarrow> move_ctor T v = v"
  shows "\<exists>s'. function_move P c2 c1 s = Inr s' \<and> operator_bool s' c1 = Inr False \<and>
     is_empty s' c1 \<and> payload P s' c1 = None \<and> holds P s' c2 T v \<and> heap s' = heap s"
  using assms(1)
proof (cases rule: holds_cases)
  case small
  with assms(2,3) show ?thesis
    by (simp add: exec_defs pred_defs small_move_construct)
next
  case (big a)
  with assms(2) show ?thesis
    by (simp add: exec_defs pred_defs)
qed

theorem move_construction_transfers_witness:
  "(\<exists>s'. function_move lp64 6 0 store4 = Inr s' \<and> operator_bool s' 0 = Inr False \<and>
      holds lp64 s' 6 add_capture 5) \<and>
   (\<exists>s'. function_move lp64 6 1 store4 = Inr s' \<and> operator_bool s' 1 = Inr False \<and>
      holds lp64 s' 6 wide_payload 7)"
proof -
  have n: "(6::nat) \<noteq> 0" "(6::nat) \<noteq> 1" by simp_all
  have m: "is_small lp64 add_capture \<longrightarrow> move_ctor add_capture 5 = 5"
    "is_small lp64 wide_payload \<longrightarrow> move_ctor wide_payload 7 = 7"
    by (simp_all add: add_capture_def wide_payload_def)
  show ?thesis
    using move_construction_transfers [OF store4_holds_small n(1) m(1)]
      move_construction_transfers [OF store4_holds_big n(2) m(2)]
    by blast
qed

subsection \<open>Assignment\<close>

text \<open>
  What the destroy operation of a record does to a slot it is consistent with: nothing
  for the empty record, the end of the object in the slot for a small type (the slot is
  raw afterwards), the release of the heap cell for any other type.
\<close>

lemma destroy_empty_record: "destroy (pointee P get_empty_func_descriptor) c s = Inr s"
  by (simp add: exec_defs)

lemma destroy_in_place:
  assumes "holds P s c U u" and "is_small P U"
  shows "destroy (pointee P (get_func_descriptor U)) c s = Inr (set_buf c Raw s)"
  using assms by (elim holds_cases) (simp_all add: exec_defs)

lemma destroy_on_heap:
  assumes "holds P s c U u" and "\<not> is_small P U"
  shows "\<exists>a. payload P s c = Some a \<and> heap s a = Some u \<and>
    destroy (pointee P (get_func_descriptor U)) c s = Inr (s\<lparr>heap := (heap s)(a := None)\<rparr>)"
  using assms by (elim holds_cases) (simp_all add: exec_defs pred_defs)



text \<open>
  Claim C3. Copy assignment copy-constructs a temporary from the source and swaps it
  with the target. Self-assignment returns at once. Between two containers in a
  consistent state, the only way it can raise is that the copy construction of the
  temporary raises (the copy constructor of the held type throws, or the allocation of
  the heap copy does); then the exception goes to the caller and the target, the source
  and the heap are as before: the target still holds its previous value, or is still
  empty. When it returns, the target is what the source is: empty, or holding the copy
  the type's copy constructor made (for a value its move constructor keeps); the source
  holds its value as before when the two did not own the same cell.
\<close>

theorem copy_assignment_strong_guarantee:
  assumes "this < stack_top s" and "rhs < stack_top s"
    and "is_empty s this \<or> holds P s this U u"
    and "is_empty s rhs \<or> holds P s rhs T v"
  shows "copy_assign P this this s = Inr s \<and>
    (this \<noteq> rhs \<longrightarrow>
      (case copy_assign P this rhs s of
         Inl (e, s') \<Rightarrow>
           holds P s rhs T v \<and>
           (copy_ctor T v = Inl e \<or> \<not> is_small P T \<and> e = bad_alloc \<and> heap_limit s \<le> brk s) \<and>
           objs s' this = objs s this \<and> objs s' rhs = objs s rhs \<and> heap s' = heap s \<and>
           brk s' = brk s \<and> stack_top s' = stack_top s \<and>
           (is_empty s this \<longrightarrow> is_empty s' this) \<and>
           (holds P s this U u \<longrightarrow> holds P s' this U u)
       | Inr s' \<Rightarrow>
           (is_empty s rhs \<longrightarrow> is_empty s' this \<and> is_empty s' rhs) \<and>
           (holds P s rhs T v \<longrightarrow>
              (separate P s this rhs \<longrightarrow> holds P s' rhs T v) \<and>
              (\<exists>v'. copy_ctor T v = Inr v' \<and>
                 (move_ctor T v' = v' \<longrightarrow> holds P s' this T v')))))"
proof -
  have ne: "this \<noteq> stack_top s" "rhs \<noteq> stack_top s" "this \<noteq> Suc (stack_top s)"
    "rhs \<noteq> Suc (stack_top s)"
    using assms(1,2) by auto
  have self: "copy_assign P this this s = Inr s"
    by (simp add: copy_assign_def)
  have other: "?thesis" if "this \<noteq> rhs"
    using assms(3,4) that ne self
    by (elim disjE holds_cases is_empty_cases;
        cases "copy_ctor T v"; cases "heap_limit s \<le> brk s";
        simp add: exec_defs pred_defs small_move_construct)
  show ?thesis
    using self other by (cases "this = rhs") auto
qed

theorem copy_assignment_strong_guarantee_witness:
  "(\<exists>s'. copy_assign lp64 1 3 store4 = Inl (thrown 1, s') \<and>
      objs s' 1 = objs store4 1 \<and> heap s' = heap store4 \<and> holds lp64 s' 1 wide_payload 7) \<and>
   (\<exists>s'. copy_assign lp64 0 1 store4 = Inr s' \<and>
      holds lp64 s' 1 wide_payload 7 \<and> holds lp64 s' 0 wide_payload 7)"
proof -
  have lt: "(1::nat) < stack_top store4" "(3::nat) < stack_top store4"
    "(0::nat) < stack_top store4"
    by (simp_all add: store4_def)
  have sep: "separate lp64 store4 1 3" "separate lp64 store4 0 1"
    by (simp_all add: pred_defs example_defs get_func_descriptor_def)
  have c1: "copy_ctor copy_throws 9 = Inl (thrown 1)"
    by (simp add: copy_throws_def)
  have c2: "copy_ctor wide_payload 7 = Inr 7" "move_ctor wide_payload 7 = 7"
    "heap_limit store4 \<le> brk store4 = False"
    by (simp_all add: wide_payload_def store4_def)
  have k: "is_small lp64 copy_throws" "\<not> is_small lp64 wide_payload"
    by (simp_all add: example_defs)
  have n: "(1::nat) \<noteq> 3" "(0::nat) \<noteq> 1" by simp_all
  have f1: "\<exists>s'. copy_assign lp64 1 3 store4 = Inl (thrown 1, s')"
    by (simp add: exec_defs example_defs)
  have f2: "\<exists>s'. copy_assign lp64 0 1 store4 = Inr s'"
    by (simp add: exec_defs example_defs)
  have a: "is_empty store4 1 \<or> holds lp64 store4 1 wide_payload 7"
    "is_empty store4 3 \<or> holds lp64 store4 3 copy_throws 9"
    "is_empty store4 0 \<or> holds lp64 store4 0 add_capture 5"
    using store4_holds_big store4_holds_throwing store4_holds_small by simp_all
  show ?thesis
    using copy_assignment_strong_guarantee [OF lt(1) lt(2) a(1) a(2)]
      copy_assignment_strong_guarantee [OF lt(3) lt(1) a(3) a(1)]
      f1 f2 n c1 c2 k sep store4_holds_big store4_holds_throwing
    by (auto split: sum.splits prod.splits)
qed

subsection \<open>Introspection\<close>

text \<open>
  Claim C5. \<^verbatim>\<open>target<T>()\<close> never throws and changes nothing. On a container it
  returns a non-null pointer exactly when the container is bound to the record of
  \<open>T\<close>, and the pointer then points to the value held. It is null for an empty
  container and for a container that holds another type \<open>U\<close>, also one with the
  size, alignment and signature of \<open>T\<close>.
\<close>

theorem target_identity:
  "(objs s c = Some f \<longrightarrow>
      (\<exists>p. target P T c s = Inr p \<and> (p \<noteq> nullptr) = (desc f = get_func_descriptor T))) \<and>
   (holds P s c T v \<longrightarrow>
      (\<exists>p. target P T c s = Inr p \<and> p \<noteq> nullptr \<and> deref s p = Some v)) \<and>
   (is_empty s c \<longrightarrow> target P T c s = Inr nullptr) \<and>
   (holds P s c U u \<and> U \<noteq> T \<longrightarrow> target P T c s = Inr nullptr)"
proof (intro conjI impI)
  assume "objs s c = Some f"
  then show "\<exists>p. target P T c s = Inr p \<and> (p \<noteq> nullptr) = (desc f = get_func_descriptor T)"
    by (cases "buf f") (simp_all add: target_def get_pointer_def buf_at_def)
next
  assume "holds P s c T v"
  then show "\<exists>p. target P T c s = Inr p \<and> p \<noteq> nullptr \<and> deref s p = Some v"
    by (cases rule: holds_cases) (simp_all add: exec_defs)
next
  assume "is_empty s c"
  then show "target P T c s = Inr nullptr"
    by (elim is_empty_cases) (simp add: exec_defs)
next
  assume "holds P s c U u \<and> U \<noteq> T"
  then have "holds P s c U u" "U \<noteq> T" by simp_all
  then show "target P T c s = Inr nullptr"
    by (cases rule: holds_cases) (simp_all add: exec_defs)
qed

theorem target_identity_witness:
  "target lp64 add_capture 0 store4 = Inr (in_buf 0) \<and>
   deref store4 (in_buf 0) = Some 5 \<and>
   target lp64 add_twin 0 store4 = Inr nullptr \<and>
   sizeof add_twin = sizeof add_capture \<and> alignof add_twin = alignof add_capture \<and>
   target lp64 add_capture 2 store4 = Inr nullptr \<and>
   (\<exists>p. target lp64 wide_payload 1 store4 = Inr p \<and> p \<noteq> nullptr \<and>
      deref store4 p = Some 7)"
proof -
  have t: "target lp64 add_capture 0 store4 = Inr (in_buf 0)"
    by (simp add: exec_defs example_defs)
  have z: "sizeof add_twin = sizeof add_capture \<and> alignof add_twin = alignof add_capture"
    by (simp add: add_twin_def add_capture_def)
  let ?f = "\<lparr>desc = get_func_descriptor add_capture, buf = Obj 5\<rparr> :: (int, int, int) function_t"
  have o: "objs store4 0 = Some ?f"
    by (simp add: store4_def)
  show ?thesis
    using target_identity
        [where s = store4 and c = 0 and f = ?f and P = lp64 and T = add_capture and v = 5
           and U = add_capture and u = 5]
      target_identity
        [where s = store4 and c = 0 and f = ?f and P = lp64 and T = add_twin and v = 5
           and U = add_capture and u = 5]
      target_identity
        [where s = store4 and c = 2 and f = ?f and P = lp64 and T = add_capture and v = 5
           and U = add_capture and u = 5]
      target_identity
        [where s = store4 and c = 1 and f = ?f and P = lp64 and T = wide_payload and v = 7
           and U = add_capture and u = 5]
      store4_holds_small store4_holds_big store4_empty twin_is_another_type t z o
    by auto
qed

subsection \<open>Copy construction\<close>

text \<open>
  Claim C9. Copy independence. When copy construction from a container holding \<open>v\<close>
  returns, the source still holds \<open>v\<close>, the copy holds an equal value (the copy
  constructor of \<open>T\<close> makes an equal value), the two \<^verbatim>\<open>target<T>()\<close> pointers differ
  and the containers own no common heap cell: a payload on the heap is copied into a
  fresh cell. Writing any \<open>w\<close> through the pointer of the copy changes the copy and
  leaves the value of the source as it was.
\<close>

theorem copy_independence:
  assumes "holds P s c1 T v" and "c2 \<noteq> c1" and "copy_ctor T v = Inr v"
    and "function_copy P c2 c1 s = Inr s1"
  shows "holds P s1 c1 T v \<and> holds P s1 c2 T v \<and> separate P s1 c1 c2 \<and>
    (\<exists>p1 p2. target P T c1 s1 = Inr p1 \<and> target P T c2 s1 = Inr p2 \<and> p1 \<noteq> p2 \<and>
       deref s1 p1 = Some v \<and> deref s1 p2 = Some v \<and>
       (\<forall>w. \<exists>s2. store_through p2 w s1 = Some s2 \<and> deref s2 p2 = Some w \<and>
          deref s2 p1 = Some v \<and> holds P s2 c1 T v \<and> holds P s2 c2 T w))"
  using assms(1)
proof (cases rule: holds_cases)
  case small
  with assms(2,3,4) show ?thesis
    by (auto simp: exec_defs pred_defs)
next
  case (big a)
  then have "a \<noteq> brk s" by simp
  with big assms(2,3,4) show ?thesis
    by (cases "heap_limit s \<le> brk s") (auto simp: exec_defs pred_defs)
qed

theorem copy_independence_witness:
  "(\<exists>s1 s2. function_copy lp64 6 1 store4 = Inr s1 \<and>
      target lp64 wide_payload 1 s1 = Inr (on_heap 0) \<and>
      target lp64 wide_payload 6 s1 = Inr (on_heap 1) \<and>
      store_through (on_heap 1) 42 s1 = Some s2 \<and>
      deref s2 (on_heap 1) = Some 42 \<and> deref s2 (on_heap 0) = Some 7) \<and>
   (\<exists>s1 s2. function_copy lp64 6 0 store4 = Inr s1 \<and>
      target lp64 add_capture 0 s1 = Inr (in_buf 0) \<and>
      target lp64 add_capture 6 s1 = Inr (in_buf 6) \<and>
      store_through (in_buf 6) 42 s1 = Some s2 \<and>
      deref s2 (in_buf 6) = Some 42 \<and> deref s2 (in_buf 0) = Some 5)"
proof -
  obtain s1 where s1: "function_copy lp64 6 1 store4 = Inr s1"
    by (simp add: exec_defs example_defs)
  obtain s1' where s1': "function_copy lp64 6 0 store4 = Inr s1'"
    by (simp add: exec_defs example_defs)
  have n: "(6::nat) \<noteq> 1" "(6::nat) \<noteq> 0" by simp_all
  have c: "copy_ctor wide_payload 7 = Inr 7" "copy_ctor add_capture 5 = Inr 5"
    by (simp_all add: wide_payload_def add_capture_def)
  have t: "target lp64 wide_payload 1 s1 = Inr (on_heap 0)"
    "target lp64 wide_payload 6 s1 = Inr (on_heap 1)"
    using s1 by (auto simp: exec_defs example_defs)
  have t': "target lp64 add_capture 0 s1' = Inr (in_buf 0)"
    "target lp64 add_capture 6 s1' = Inr (in_buf 6)"
    using s1' by (auto simp: exec_defs example_defs)
  show ?thesis
    using copy_independence [OF store4_holds_big n(1) c(1) s1]
      copy_independence [OF store4_holds_small n(2) c(2) s1'] s1 s1' t t'
    by (metis sum.inject(2))
qed

end
